theory Spec2Isabelle
  imports Main
begin

section \<open>JavaScript strings\<close>

text \<open>
  A JavaScript string is a sequence of UTF-16 code units. A code unit is modelled as a
  natural number, a string as the list of its code units. \<open>str\<close> embeds an ASCII literal;
  the code units beyond ASCII that the script's literals contain are written as numerals
  (for example \<open>0x2705\<close> for the check mark of the success status). Where the source
  is quoted below, a sign or an accented letter beyond ASCII is written as an ASCII
  stand-in.
\<close>

type_synonym jsstring = "nat list"

definition str :: "string \<Rightarrow> jsstring" where
  "str s = map of_char s"

text \<open>
  A value that may be \<^verbatim>\<open>undefined\<close> (a column the CSV line does not have) is an
  option. \<^verbatim>\<open>x?.trim()\<close> is \<open>map_option trim x\<close>; \<^verbatim>\<open>x || 'N/A'\<close> and the
  truthiness test \<^verbatim>\<open>!x\<close> treat \<^verbatim>\<open>undefined\<close> and the empty string alike;
  a template literal prints \<^verbatim>\<open>undefined\<close> as the word.
\<close>

definition truthy_str :: "jsstring option \<Rightarrow> bool" where
  "truthy_str x = (case x of None \<Rightarrow> False | Some s \<Rightarrow> s \<noteq> [])"

definition or_else :: "jsstring option \<Rightarrow> jsstring \<Rightarrow> jsstring" where
  "or_else x d = (case x of None \<Rightarrow> d | Some s \<Rightarrow> (if s = [] then d else s))"

definition tpl :: "jsstring option \<Rightarrow> jsstring" where
  "tpl x = (case x of None \<Rightarrow> str ''undefined'' | Some s \<Rightarrow> s)"

text \<open>
  \<^verbatim>\<open>String.prototype.trim\<close> removes the white space and line terminator code units
  of ECMAScript from both ends.
\<close>

definition is_space :: "nat \<Rightarrow> bool" where
  "is_space c = (c \<in> {0x09, 0x0A, 0x0B, 0x0C, 0x0D, 0x20, 0xA0, 0x1680, 0x2028, 0x2029,
                       0x202F, 0x205F, 0x3000, 0xFEFF} \<or> (0x2000 \<le> c \<and> c \<le> 0x200A))"

definition trim :: "jsstring \<Rightarrow> jsstring" where
  "trim s = rev (dropWhile is_space (rev (dropWhile is_space s)))"

text \<open>
  \<^verbatim>\<open>toLowerCase\<close> and \<^verbatim>\<open>toUpperCase\<close> are modelled on the Basic Latin letters,
  the alphabet of the object kinds, type names and option lists the script reads; every
  other code unit is left as it is.
\<close>

definition lower_unit :: "nat \<Rightarrow> nat" where
  "lower_unit c = (if 0x41 \<le> c \<and> c \<le> 0x5A then c + 0x20 else c)"

definition upper_unit :: "nat \<Rightarrow> nat" where
  "upper_unit c = (if 0x61 \<le> c \<and> c \<le> 0x7A then c - 0x20 else c)"

definition toLowerCase :: "jsstring \<Rightarrow> jsstring" where
  "toLowerCase s = map lower_unit s"

definition toUpperCase :: "jsstring \<Rightarrow> jsstring" where
  "toUpperCase s = map upper_unit s"

text \<open>
  On a string of Basic Latin code units (below \<open>0x80\<close>) the two functions above are the
  case mappings of the runtime, which change the letters \<open>A\<close> to \<open>Z\<close> and \<open>a\<close> to \<open>z\<close>
  there and nothing else. Beyond Basic Latin the runtime maps every cased letter, some
  to several code units, and the functions above do not follow it: a statement on the
  case of the letters of an arbitrary string carries the hypothesis \<open>basic_latin\<close>.
\<close>

definition basic_latin :: "jsstring \<Rightarrow> bool" where
  "basic_latin s = list_all (\<lambda>c. c < 0x80) s"

text \<open>\<^verbatim>\<open>s.charAt(0)\<close> is the empty string on the empty string; \<^verbatim>\<open>s.slice(1)\<close> drops one unit.\<close>

definition charAt0 :: "jsstring \<Rightarrow> jsstring" where
  "charAt0 s = take 1 s"

definition slice1 :: "jsstring \<Rightarrow> jsstring" where
  "slice1 s = drop 1 s"

text \<open>
  \<^verbatim>\<open>s.split(sep)\<close> for a separator of one code unit: the pieces between the
  occurrences of the separator, the empty ones included; the empty string gives one
  empty piece.
\<close>

fun split :: "nat \<Rightarrow> jsstring \<Rightarrow> jsstring list" where
  "split sep [] = [[]]"
| "split sep (c # cs) =
     (if c = sep then [] # split sep cs
      else (case split sep cs of [] \<Rightarrow> [[c]] | w # ws \<Rightarrow> (c # w) # ws))"

section \<open>Enumeration options\<close>

text \<open>
  \<^verbatim>\<open>
  function buildOptions(optionString) {
    return optionString.split('|').map(opt => ({
      label: opt.trim().charAt(0).toUpperCase() + opt.trim().slice(1),
      value: opt.trim().toLowerCase()
    }));
  }
  \<close>
  The two fields of an option are \<open>opt_label\<close> and \<open>opt_value\<close>.
\<close>

record enum_option =
  opt_label :: jsstring
  opt_value :: jsstring

definition pipe :: nat where
  "pipe = 0x7C"

definition buildOption :: "jsstring \<Rightarrow> enum_option" where
  "buildOption opt =
     \<lparr>opt_label = toUpperCase (charAt0 (trim opt)) @ slice1 (trim opt),
      opt_value = toLowerCase (trim opt)\<rparr>"

definition buildOptions :: "jsstring \<Rightarrow> enum_option list" where
  "buildOptions optionString = map buildOption (split pipe optionString)"

section \<open>Rows, property definitions and the endpoint table\<close>

text \<open>
  A row of the CSV parser is an object with one string per column of the header; a column
  that the line does not have is \<^verbatim>\<open>undefined\<close>. The fields carry the prefix \<open>row_\<close>.
\<close>

record row =
  row_objectType :: "jsstring option"
  row_name :: "jsstring option"
  row_label :: "jsstring option"
  row_description :: "jsstring option"
  row_groupName :: "jsstring option"
  row_type :: "jsstring option"
  row_fieldType :: "jsstring option"
  row_options :: "jsstring option"

text \<open>
  The object \<^verbatim>\<open>propriedade\<close> that the row handler builds (fields with the prefix
  \<open>p_\<close>); \<open>p_options\<close> and \<open>p_numberDisplayHint\<close> are \<open>None\<close> when the handler does
  not set them.
\<close>

record propriedade =
  p_name :: "jsstring option"
  p_label :: "jsstring option"
  p_description :: "jsstring option"
  p_groupName :: "jsstring option"
  p_type :: "jsstring option"
  p_fieldType :: "jsstring option"
  p_formField :: bool
  p_options :: "enum_option list option"
  p_numberDisplayHint :: "jsstring option"

text \<open>
  \<^verbatim>\<open>
  const BASE_URLS = {
    contact: 'https://api.hubapi.com/properties/v1/contacts/properties',
    deal: 'https://api.hubspot.com/properties/v1/deals/properties',
    ticket: 'https://api.hubspot.com/crm/v3/properties/tickets',
  };
  \<close>
  \<^verbatim>\<open>BASE_URLS\<close> is an object literal, and \<^verbatim>\<open>BASE_URLS[objectType]\<close> is a property
  access: it finds the three own properties, and after them the properties that every
  object literal inherits from \<^verbatim>\<open>Object.prototype\<close>, which are functions (and, for
  \<^verbatim>\<open>__proto__\<close>, the prototype object): values that are not strings and are truthy.
\<close>

definition BASE_URLS_own :: "(jsstring \<times> jsstring) list" where
  "BASE_URLS_own =
     [(str ''contact'', str ''https://api.hubapi.com/properties/v1/contacts/properties''),
      (str ''deal'', str ''https://api.hubspot.com/properties/v1/deals/properties''),
      (str ''ticket'', str ''https://api.hubspot.com/crm/v3/properties/tickets'')]"

definition Object_prototype_names :: "jsstring list" where
  "Object_prototype_names =
     [str ''constructor'', str ''__defineGetter__'', str ''__defineSetter__'',
      str ''hasOwnProperty'', str ''__lookupGetter__'', str ''__lookupSetter__'',
      str ''isPrototypeOf'', str ''propertyIsEnumerable'', str ''toString'',
      str ''valueOf'', str ''__proto__'', str ''toLocaleString'']"

datatype jsvalue = Undefined | String jsstring | Inherited jsstring

definition BASE_URLS :: "jsstring \<Rightarrow> jsvalue" where
  "BASE_URLS key =
     (case map_of BASE_URLS_own key of
        Some url \<Rightarrow> String url
      | None \<Rightarrow> (if key \<in> set Object_prototype_names then Inherited key else Undefined))"

definition truthy :: "jsvalue \<Rightarrow> bool" where
  "truthy v = (case v of Undefined \<Rightarrow> False | String s \<Rightarrow> s \<noteq> [] | Inherited k \<Rightarrow> True)"

section \<open>Result records\<close>

text \<open>
  An entry of \<^verbatim>\<open>creationResults\<close> (fields with the prefix \<open>r_\<close>). The name and the
  label of a submitted row are those of the property definition and may be
  \<^verbatim>\<open>undefined\<close>.
\<close>

record result =
  r_objectType :: jsstring
  r_name :: "jsstring option"
  r_label :: "jsstring option"
  r_status :: jsstring
  r_errorMessage :: jsstring
  r_timestamp :: jsstring

definition status_sucesso :: jsstring where
  "status_sucesso = [0x2705, 0x20] @ str ''Sucesso''"

definition status_falha :: jsstring where
  "status_falha = [0x274C, 0x20] @ str ''Falha''"

definition status_objeto_invalido :: jsstring where
  "status_objeto_invalido =
     [0x26A0, 0xFE0F, 0x20] @ str ''Objeto Inv'' @ [0xE1] @ str ''lido / Linha Ignorada''"

definition status_erro_critico :: jsstring where
  "status_erro_critico = [0x274C, 0x20] @ str ''Erro Cr'' @ [0xED] @ str ''tico''"

text \<open>
  The clock of the runtime: the two renderings of the current time that the script asks
  for, \<^verbatim>\<open>new Date().toISOString()\<close> and \<^verbatim>\<open>new Date().toLocaleString('pt-BR')\<close>.
  Each event of the run carries the reading of the clock at which its handler runs.
\<close>

record clock =
  toISOString :: jsstring
  toLocaleString :: jsstring

section \<open>The response body of a failed request\<close>

text \<open>
  The body of an HTTP response as the HTTP client hands it over: a parsed JSON value.
  Numbers are the integers that a double represents exactly (the safe integers); the
  properties of an object are listed in the order in which the runtime enumerates them.
  \<open>json_truthy\<close> is the truth value of a value in a condition.
\<close>

datatype json =
  JNull | JBool bool | JNum int | JStr jsstring | JArr "json list" | JObj "(jsstring \<times> json) list"

fun json_truthy :: "json \<Rightarrow> bool" where
  "json_truthy JNull = False"
| "json_truthy (JBool b) = b"
| "json_truthy (JNum n) = (n \<noteq> 0)"
| "json_truthy (JStr s) = (s \<noteq> [])"
| "json_truthy (JArr xs) = True"
| "json_truthy (JObj kvs) = True"

text \<open>
  \<^verbatim>\<open>JSON.stringify(value, null, 2)\<close>: the serialization with an indentation of two
  spaces. Strings are quoted with the escapes of \<^verbatim>\<open>QuoteJSONString\<close>.
\<close>

fun show_nat :: "nat \<Rightarrow> jsstring" where
  "show_nat n = (if n < 10 then [0x30 + n] else show_nat (n div 10) @ [0x30 + n mod 10])"

definition show_int :: "int \<Rightarrow> jsstring" where
  "show_int i = (if i < 0 then 0x2D # show_nat (nat (- i)) else show_nat (nat i))"

definition hex_digit :: "nat \<Rightarrow> nat" where
  "hex_digit d = (if d < 10 then 0x30 + d else 0x61 + (d - 10))"

definition unicode_escape :: "nat \<Rightarrow> jsstring" where
  "unicode_escape c =
     [0x5C, 0x75, hex_digit (c div 4096 mod 16), hex_digit (c div 256 mod 16),
      hex_digit (c div 16 mod 16), hex_digit (c mod 16)]"

definition is_high_surrogate :: "nat \<Rightarrow> bool" where
  "is_high_surrogate c = (0xD800 \<le> c \<and> c \<le> 0xDBFF)"

definition is_low_surrogate :: "nat \<Rightarrow> bool" where
  "is_low_surrogate c = (0xDC00 \<le> c \<and> c \<le> 0xDFFF)"

definition quote_unit :: "nat \<Rightarrow> jsstring" where
  "quote_unit c =
     (if c = 0x08 then [0x5C, 0x62] else if c = 0x09 then [0x5C, 0x74]
      else if c = 0x0A then [0x5C, 0x6E] else if c = 0x0C then [0x5C, 0x66]
      else if c = 0x0D then [0x5C, 0x72] else if c = 0x22 then [0x5C, 0x22]
      else if c = 0x5C then [0x5C, 0x5C]
      else if c < 0x20 \<or> is_high_surrogate c \<or> is_low_surrogate c then unicode_escape c
      else [c])"

fun quote_units :: "jsstring \<Rightarrow> jsstring" where
  "quote_units [] = []"
| "quote_units [c] = quote_unit c"
| "quote_units (c # d # cs) =
     (if is_high_surrogate c \<and> is_low_surrogate d then c # d # quote_units cs
      else quote_unit c @ quote_units (d # cs))"

definition quote :: "jsstring \<Rightarrow> jsstring" where
  "quote s = [0x22] @ quote_units s @ [0x22]"

fun join :: "jsstring \<Rightarrow> jsstring list \<Rightarrow> jsstring" where
  "join sep [] = []"
| "join sep [x] = x"
| "join sep (x # y # ys) = x @ sep @ join sep (y # ys)"

definition gap :: jsstring where
  "gap = [0x20, 0x20]"

fun serialize :: "jsstring \<Rightarrow> json \<Rightarrow> jsstring" where
  "serialize ind JNull = str ''null''"
| "serialize ind (JBool b) = (if b then str ''true'' else str ''false'')"
| "serialize ind (JNum n) = show_int n"
| "serialize ind (JStr s) = quote s"
| "serialize ind (JArr xs) =
     (if xs = [] then str ''[]''
      else str ''['' @ [0x0A] @ ind @ gap
           @ join ([0x2C, 0x0A] @ ind @ gap) (map (serialize (ind @ gap)) xs)
           @ [0x0A] @ ind @ str '']'')"
| "serialize ind (JObj kvs) =
     (if kvs = [] then str ''{}''
      else str ''{'' @ [0x0A] @ ind @ gap
           @ join ([0x2C, 0x0A] @ ind @ gap)
               (map (\<lambda>kv. quote (fst kv) @ str '': '' @ serialize (ind @ gap) (snd kv)) kvs)
           @ [0x0A] @ ind @ str ''}'')"

definition JSON_stringify :: "json \<Rightarrow> jsstring" where
  "JSON_stringify v = serialize [] v"

section \<open>The submitter\<close>

text \<open>
  \<^verbatim>\<open>
  async function createProperty(objectType, data) {
    const url = BASE_URLS[objectType];
    let status = 'X Falha';
    let errorMessage = '';
    try {
      const response = await axios.post(url, data, { headers: HEADERS });
      status = 'V Sucesso';
    } catch (error) {
      errorMessage = error.response?.data
        ? JSON.stringify(error.response.data, null, 2) : error.message;
    } finally {
      creationResults.push({ objectType: objectType, name: data.name, label: data.label,
        status: status, errorMessage: errorMessage,
        timestamp: new Date().toLocaleString('pt-BR') });
    }
  }
  \<close>
  The function runs in two parts. Up to the \<^verbatim>\<open>await\<close> it looks the endpoint up and
  hands the request to the HTTP client (\<open>createProperty_request\<close>); the request is then
  in flight. The headers of the request, with the token of the environment, are the same
  for every request and are left out. When the client settles the request, the rest runs
  (\<open>createProperty_settle\<close>): it builds the record that is pushed. The client resolves
  the request on a 2xx response and rejects it with an error object otherwise;
  \<open>response_data\<close> is \<^verbatim>\<open>error.response?.data\<close>, \<open>None\<close> when there is no response
  or the response has no data.
\<close>

record request =
  req_objectType :: jsstring
  req_url :: jsvalue
  req_data :: propriedade

record js_error =
  response_data :: "json option"
  message :: jsstring

datatype post_outcome = Resolved | Rejected js_error

definition createProperty_request :: "jsstring \<Rightarrow> propriedade \<Rightarrow> request" where
  "createProperty_request objectType data =
     \<lparr>req_objectType = objectType, req_url = BASE_URLS objectType, req_data = data\<rparr>"

definition error_text :: "js_error \<Rightarrow> jsstring" where
  "error_text e =
     (case response_data e of
        None \<Rightarrow> message e
      | Some d \<Rightarrow> (if json_truthy d then JSON_stringify d else message e))"

definition createProperty_settle :: "request \<Rightarrow> post_outcome \<Rightarrow> clock \<Rightarrow> result" where
  "createProperty_settle req outcome now =
     (let status = (case outcome of Resolved \<Rightarrow> status_sucesso | Rejected e \<Rightarrow> status_falha);
          errorMessage = (case outcome of Resolved \<Rightarrow> [] | Rejected e \<Rightarrow> error_text e)
      in \<lparr>r_objectType = req_objectType req,
          r_name = p_name (req_data req),
          r_label = p_label (req_data req),
          r_status = status,
          r_errorMessage = errorMessage,
          r_timestamp = toLocaleString now\<rparr>)"

section \<open>The row handler\<close>

text \<open>
  The listener of the parser's \<^verbatim>\<open>data\<close> event. Its synchronous part either pushes
  the record of an ignored row (\<open>Pushed\<close>) or reaches the \<^verbatim>\<open>await\<close> of
  \<^verbatim>\<open>createProperty\<close> with a request in flight (\<open>Submitted\<close>).
  \<^verbatim>\<open>
  const objectType = row.objectType?.trim()?.toLowerCase();
  const propertyName = row.name?.trim();
  if (!objectType || !BASE_URLS[objectType]) {
    creationResults.push({ objectType: objectType || 'N/A', name: propertyName || 'N/A',
      label: row.label?.trim() || 'N/A', status: '! Objeto Invalido / Linha Ignorada',
      errorMessage: `Objeto '${objectType}' nao reconhecido ou linha CSV incompleta.`,
      timestamp: new Date().toLocaleString('pt-BR') });
    return;
  }
  const propriedade = { name: propertyName, label: row.label?.trim(),
    description: row.description?.trim(), groupName: row.groupName?.trim(),
    type: row.type?.trim(), fieldType: row.fieldType?.trim(), formField: true };
  if (propriedade.type === 'enumeration' && row.options) {
    propriedade.options = buildOptions(row.options);
  }
  if (propriedade.type === 'number' && propriedade.fieldType === 'number') {
    propriedade.numberDisplayHint = 'number';
  }
  await createProperty(objectType, propriedade);
  \<close>
\<close>

definition objectType_of :: "row \<Rightarrow> jsstring option" where
  "objectType_of r = map_option toLowerCase (map_option trim (row_objectType r))"

definition propertyName_of :: "row \<Rightarrow> jsstring option" where
  "propertyName_of r = map_option trim (row_name r)"

definition row_ignored :: "row \<Rightarrow> bool" where
  "row_ignored r =
     (case objectType_of r of
        None \<Rightarrow> True
      | Some objectType \<Rightarrow> objectType = [] \<or> \<not> truthy (BASE_URLS objectType))"

definition NA :: jsstring where
  "NA = str ''N/A''"

definition ignored_message :: "jsstring option \<Rightarrow> jsstring" where
  "ignored_message objectType =
     str ''Objeto '' @ [0x27] @ tpl objectType @ [0x27] @ str '' n'' @ [0xE3]
     @ str ''o reconhecido ou linha CSV incompleta.''"

definition ignored_result :: "row \<Rightarrow> clock \<Rightarrow> result" where
  "ignored_result r now =
     \<lparr>r_objectType = or_else (objectType_of r) NA,
      r_name = Some (or_else (propertyName_of r) NA),
      r_label = Some (or_else (map_option trim (row_label r)) NA),
      r_status = status_objeto_invalido,
      r_errorMessage = ignored_message (objectType_of r),
      r_timestamp = toLocaleString now\<rparr>"

definition base_propriedade :: "row \<Rightarrow> propriedade" where
  "base_propriedade r =
     \<lparr>p_name = propertyName_of r,
      p_label = map_option trim (row_label r),
      p_description = map_option trim (row_description r),
      p_groupName = map_option trim (row_groupName r),
      p_type = map_option trim (row_type r),
      p_fieldType = map_option trim (row_fieldType r),
      p_formField = True,
      p_options = None,
      p_numberDisplayHint = None\<rparr>"

definition add_options :: "row \<Rightarrow> propriedade \<Rightarrow> propriedade" where
  "add_options r p =
     (if p_type p = Some (str ''enumeration'') \<and> truthy_str (row_options r)
      then (case row_options r of
              None \<Rightarrow> p
            | Some optionString \<Rightarrow> p\<lparr>p_options := Some (buildOptions optionString)\<rparr>)
      else p)"

definition add_numberDisplayHint :: "propriedade \<Rightarrow> propriedade" where
  "add_numberDisplayHint p =
     (if p_type p = Some (str ''number'') \<and> p_fieldType p = Some (str ''number'')
      then p\<lparr>p_numberDisplayHint := Some (str ''number'')\<rparr>
      else p)"

definition build_propriedade :: "row \<Rightarrow> propriedade" where
  "build_propriedade r = add_numberDisplayHint (add_options r (base_propriedade r))"

datatype handled = Pushed result | Submitted request

text \<open>
  \<open>row_ignored\<close> is the condition of the \<^verbatim>\<open>if\<close>. Past it the object kind is a
  string that is not empty, so the first branch of the \<open>case\<close> below is never taken.
\<close>

definition on_data :: "row \<Rightarrow> clock \<Rightarrow> handled" where
  "on_data r now =
     (if row_ignored r then Pushed (ignored_result r now)
      else (case objectType_of r of
              None \<Rightarrow> Pushed (ignored_result r now)
            | Some objectType \<Rightarrow>
                Submitted (createProperty_request objectType (build_propriedade r))))"

section \<open>The report writer\<close>

text \<open>
  The PDF document is the sequence of the calls that \<^verbatim>\<open>generatePdfReport\<close> makes
  on it, written to the file whose name the function computes.
  \<^verbatim>\<open>
  const statusColor = result.status === 'V Sucesso' ? 'green'
    : (result.status === '! Objeto Invalido' ? 'orange' : 'red');
  \<close>
\<close>

datatype text_options = No_options | Align_center | Continued_false

datatype pdf_call =
  Doc_fontSize nat | Doc_text jsstring text_options | Doc_fillColor jsstring
  | Doc_moveDown "nat option" | Doc_end

record report =
  filename :: jsstring
  calls :: "pdf_call list"

definition orange_status :: jsstring where
  "orange_status = [0x26A0, 0xFE0F, 0x20] @ str ''Objeto Inv'' @ [0xE1] @ str ''lido''"

definition statusColor :: "result \<Rightarrow> jsstring" where
  "statusColor r =
     (if r_status r = status_sucesso then str ''green''
      else if r_status r = orange_status then str ''orange'' else str ''red'')"

definition render_result :: "result \<Rightarrow> pdf_call list" where
  "render_result r =
     [Doc_fontSize 11, Doc_fillColor (str ''black''),
      Doc_text (str ''Objeto: '' @ r_objectType r) No_options,
      Doc_text (str ''Nome Interno: '' @ tpl (r_name r)) No_options,
      Doc_text (str ''Label: '' @ tpl (r_label r)) No_options,
      Doc_text (str ''Status: '') No_options,
      Doc_fillColor (statusColor r),
      Doc_text (r_status r) Continued_false,
      Doc_fillColor (str ''black'')]
     @ (if r_errorMessage r \<noteq> []
        then [Doc_text (str ''Mensagem de Erro: '' @ r_errorMessage r) No_options] else [])
     @ [Doc_text (str ''Hora: '' @ r_timestamp r) No_options, Doc_moveDown (Some 1)]"

definition replace_all :: "nat \<Rightarrow> nat \<Rightarrow> jsstring \<Rightarrow> jsstring" where
  "replace_all a b s = map (\<lambda>c. if c = a then b else c) s"

definition report_filename :: "clock \<Rightarrow> jsstring" where
  "report_filename now =
     str ''relatorio_importacao_propriedades_''
     @ replace_all 0x2E 0x5F (replace_all 0x3A 0x2D (toISOString now)) @ str ''.pdf''"

definition report_title :: jsstring where
  "report_title =
     str ''Relat'' @ [0xF3] @ str ''rio de Importa'' @ [0xE7, 0xE3]
     @ str ''o de Propriedades HubSpot''"

definition placeholder :: jsstring where
  "placeholder = str ''Nenhuma propriedade foi processada a partir do CSV.''"

definition generatePdfReport :: "result list \<Rightarrow> clock \<Rightarrow> report" where
  "generatePdfReport results now =
     \<lparr>filename = report_filename now,
      calls =
        [Doc_fontSize 18, Doc_text report_title Align_center, Doc_moveDown None,
         Doc_fontSize 10,
         Doc_text (str ''Data da Execu'' @ [0xE7, 0xE3] @ str ''o: '' @ toLocaleString now)
           No_options,
         Doc_moveDown None]
        @ (if length results = 0
           then [Doc_fontSize 12, Doc_text placeholder Align_center]
           else concat (map render_result results))
        @ [Doc_end]\<rparr>"

section \<open>The run of the import\<close>

text \<open>
  \<^verbatim>\<open>
  function importarCSV(caminhoCSV) {
    fs.createReadStream(caminhoCSV)
      .pipe(csv())
      .on('data', async (row) => { ... })
      .on('end', () => { generatePdfReport(creationResults); })
      .on('error', (error) => {
          creationResults.push({ objectType: 'N/A', name: 'Erro de Leitura CSV',
            label: 'N/A', status: 'X Erro Critico',
            errorMessage: `Erro ao ler o arquivo CSV: ${error.message}`,
            timestamp: new Date().toLocaleString('pt-BR') });
          generatePdfReport(creationResults);
      });
  }
  \<close>
  The script runs on the event loop of the runtime: one handler at a time, each to its
  end or to its \<^verbatim>\<open>await\<close>. A run is the sequence of the events that the runtime
  delivers, and \<open>step\<close> is what the script does at one event; \<open>None\<close> says that the
  event cannot happen in that state.

  \<^item> \<open>Data r now\<close>: the parser emits a row. The listener is an \<^verbatim>\<open>async\<close> function
    whose promise nobody awaits: the parser goes on while the request is in flight.
  \<^item> \<open>Settled i outcome now\<close>: the HTTP client settles the \<open>i\<close>-th request in flight
    (requests may settle in any order), and the rest of \<^verbatim>\<open>createProperty\<close> runs.
  \<^item> \<open>End now\<close>: the parser emits \<^verbatim>\<open>end\<close>.
  \<^item> \<open>Parser_error msg now\<close>: the parser emits \<^verbatim>\<open>error\<close>. The three listeners are
    registered on the value of \<^verbatim>\<open>.pipe(csv())\<close>, which is the parser.
  \<^item> \<open>File_error msg\<close>: the file stream of \<^verbatim>\<open>fs.createReadStream\<close> emits
    \<^verbatim>\<open>error\<close> (the file is missing or cannot be read). \<^verbatim>\<open>pipe\<close> does not pass
    the errors of its source on, and the script registers no listener on the file
    stream: the runtime throws the error of an \<^verbatim>\<open>error\<close> event without listener,
    and the process ends on the uncaught exception.

  A stream emits \<^verbatim>\<open>end\<close> or \<^verbatim>\<open>error\<close> once, and nothing after it.
  The writes to the console are left out.
\<close>

datatype stream_state = Flowing | Ended | Errored

record state =
  creationResults :: "result list"
  in_flight :: "request list"
  parser :: stream_state
  reports :: "report list"
  crashed :: bool

datatype event =
  Data row clock
  | Settled nat post_outcome clock
  | End clock
  | Parser_error jsstring clock
  | File_error jsstring

definition initial_state :: state where
  "initial_state =
     \<lparr>creationResults = [], in_flight = [], parser = Flowing, reports = [], crashed = False\<rparr>"

definition critical_result :: "jsstring \<Rightarrow> clock \<Rightarrow> result" where
  "critical_result msg now =
     \<lparr>r_objectType = NA,
      r_name = Some (str ''Erro de Leitura CSV''),
      r_label = Some NA,
      r_status = status_erro_critico,
      r_errorMessage = str ''Erro ao ler o arquivo CSV: '' @ msg,
      r_timestamp = toLocaleString now\<rparr>"

definition handle_data :: "state \<Rightarrow> row \<Rightarrow> clock \<Rightarrow> state" where
  "handle_data s r now =
     (case on_data r now of
        Pushed res \<Rightarrow> s\<lparr>creationResults := creationResults s @ [res]\<rparr>
      | Submitted req \<Rightarrow> s\<lparr>in_flight := in_flight s @ [req]\<rparr>)"

definition handle_settled :: "state \<Rightarrow> nat \<Rightarrow> post_outcome \<Rightarrow> clock \<Rightarrow> state" where
  "handle_settled s i outcome now =
     s\<lparr>creationResults := creationResults s @ [createProperty_settle (in_flight s ! i) outcome now],
       in_flight := take i (in_flight s) @ drop (Suc i) (in_flight s)\<rparr>"

definition handle_end :: "state \<Rightarrow> clock \<Rightarrow> state" where
  "handle_end s now =
     s\<lparr>parser := Ended, reports := reports s @ [generatePdfReport (creationResults s) now]\<rparr>"

definition handle_error :: "state \<Rightarrow> jsstring \<Rightarrow> clock \<Rightarrow> state" where
  "handle_error s msg now =
     (let results = creationResults s @ [critical_result msg now]
      in s\<lparr>creationResults := results, parser := Errored,
           reports := reports s @ [generatePdfReport results now]\<rparr>)"

fun step :: "state \<Rightarrow> event \<Rightarrow> state option" where
  "step s (Data r now) =
     (if crashed s then None
      else if parser s = Flowing then Some (handle_data s r now) else None)"
| "step s (Settled i outcome now) =
     (if crashed s then None
      else if i < length (in_flight s) then Some (handle_settled s i outcome now) else None)"
| "step s (End now) =
     (if crashed s then None
      else if parser s = Flowing then Some (handle_end s now) else None)"
| "step s (Parser_error msg now) =
     (if crashed s then None
      else if parser s = Flowing then Some (handle_error s msg now) else None)"
| "step s (File_error msg) =
     (if crashed s then None
      else if parser s = Flowing then Some (s\<lparr>crashed := True\<rparr>) else None)"

fun run :: "state \<Rightarrow> event list \<Rightarrow> state option" where
  "run s [] = Some s"
| "run s (e # es) = (case step s e of None \<Rightarrow> None | Some s' \<Rightarrow> run s' es)"

section \<open>The specification's reading of the option list\<close>





section \<open>Counting the events of a run\<close>

text \<open>
  A row is received when the parser emits it. It is processed when its handling has
  reached its end: at once for an ignored row, and when its request settles for a
  submitted row.
\<close>

fun is_received :: "event \<Rightarrow> bool" where
  "is_received (Data r now) = True"
| "is_received e = False"

fun is_processed :: "event \<Rightarrow> bool" where
  "is_processed (Data r now) = row_ignored r"
| "is_processed (Settled i outcome now) = True"
| "is_processed e = False"

fun is_critical :: "event \<Rightarrow> bool" where
  "is_critical (Parser_error msg now) = True"
| "is_critical e = False"

definition rows_received :: "event list \<Rightarrow> nat" where
  "rows_received es = length (filter is_received es)"

definition rows_processed :: "event list \<Rightarrow> nat" where
  "rows_processed es = length (filter is_processed es)"

definition critical_entries :: "event list \<Rightarrow> nat" where
  "critical_entries es = length (filter is_critical es)"

definition known_status :: "result \<Rightarrow> bool" where
  "known_status r =
     (r_status r \<in> {status_sucesso, status_falha, status_objeto_invalido, status_erro_critico})"

text \<open>
  Reading a document: \<open>status_lines colour cs\<close> follows the calls \<open>cs\<close> on the document
  with the fill colour in force, \<open>colour\<close> at the start, and lists the texts written with
  the option \<^verbatim>\<open>continued: false\<close>, each with the fill colour in which it is written.
  The report writer passes this option for the status of a result and for no other text,
  and a new document fills in black.
\<close>

fun status_lines :: "jsstring \<Rightarrow> pdf_call list \<Rightarrow> (jsstring \<times> jsstring) list" where
  "status_lines colour [] = []"
| "status_lines colour (Doc_fillColor c # cs) = status_lines c cs"
| "status_lines colour (Doc_text t Continued_false # cs) =
     (colour, t) # status_lines colour cs"
| "status_lines colour (Doc_text t No_options # cs) = status_lines colour cs"
| "status_lines colour (Doc_text t Align_center # cs) = status_lines colour cs"
| "status_lines colour (Doc_fontSize n # cs) = status_lines colour cs"
| "status_lines colour (Doc_moveDown n # cs) = status_lines colour cs"
| "status_lines colour (Doc_end # cs) = status_lines colour cs"

text \<open>
  The number of records in the accumulator when the report of a run is written: the rows
  processed before the parser ends or fails, and the record of the failure.
\<close>

fun results_at_report :: "event list \<Rightarrow> nat" where
  "results_at_report [] = 0"
| "results_at_report (End now # es) = 0"
| "results_at_report (Parser_error msg now # es) = 1"
| "results_at_report (e # es) = (if is_processed e then 1 else 0) + results_at_report es"

text \<open>
  The invariant behind the colours of the report: every record carries one of the four
  statuses that the script writes, and no report written so far sets the orange colour.
\<close>

definition colors_ok :: "state \<Rightarrow> bool" where
  "colors_ok s \<longleftrightarrow>
     (\<forall>r \<in> set (creationResults s). known_status r)
     \<and> (\<forall>rep \<in> set (reports s). Doc_fillColor (str ''orange'') \<notin> set (calls rep))"

section \<open>Example inputs\<close>

definition clock0 :: clock where
  "clock0 = \<lparr>toISOString = str ''2025-01-15T12:30:45.123Z'',
             toLocaleString = str ''15/01/2025, 09:30:45''\<rparr>"

definition contact_row :: row where
  "contact_row =
     \<lparr>row_objectType = Some (str ''contact''), row_name = Some (str ''favorite_color''),
      row_label = Some (str ''Favorite color''), row_description = Some (str ''A color''),
      row_groupName = Some (str ''contactinformation''), row_type = Some (str ''string''),
      row_fieldType = Some (str ''text''), row_options = Some []\<rparr>"

definition company_row :: row where
  "company_row = contact_row\<lparr>row_objectType := Some (str ''company'')\<rparr>"

definition deal_enum_row :: row where
  "deal_enum_row =
     \<lparr>row_objectType = Some (str ''deal''), row_name = Some (str ''approved''),
      row_label = Some (str ''Approved''), row_description = Some (str ''Approval''),
      row_groupName = Some (str ''dealinformation''), row_type = Some (str ''enumeration''),
      row_fieldType = Some (str ''select''), row_options = Some (str ''Yes|No'')\<rparr>"



definition constructor_row :: row where
  "constructor_row = contact_row\<lparr>row_objectType := Some (str ''constructor'')\<rparr>"



definition ticket_number_row :: row where
  "ticket_number_row =
     \<lparr>row_objectType = Some (str ''ticket''), row_name = Some (str ''retries''),
      row_label = Some (str ''Retries''), row_description = Some (str ''Count''),
      row_groupName = Some (str ''ticketinformation''), row_type = Some (str '' number''),
      row_fieldType = Some (str ''number ''), row_options = None\<rparr>"

definition zero_body_error :: js_error where
  "zero_body_error =
     \<lparr>response_data = Some (JNum 0), message = str ''Request failed with status code 500''\<rparr>"

definition conflict_error :: js_error where
  "conflict_error =
     \<lparr>response_data = Some (JObj [(str ''status'', JStr (str ''error'')), (str ''code'', JNum 409)]),
      message = str ''Request failed with status code 409''\<rparr>"

definition enoent :: jsstring where
  "enoent = str ''ENOENT: no such file or directory, open propriedades.csv''"

section \<open>Basic facts\<close>

lemmas string_ops = str_def trim_def is_space_def toLowerCase_def toUpperCase_def
  lower_unit_def upper_unit_def charAt0_def slice1_def

lemma str_eq_iff [simp]: "str s = str t \<longleftrightarrow> s = t"
  unfolding str_def by (simp add: inj_map_eq_map inj_of_char)

lemma str_eq_Nil [simp]: "str s = [] \<longleftrightarrow> s = []" "[] = str s \<longleftrightarrow> s = []"
  unfolding str_def by auto

lemma statuses_distinct:
  "status_sucesso \<noteq> status_falha" "status_sucesso \<noteq> status_objeto_invalido"
  "status_sucesso \<noteq> status_erro_critico" "status_falha \<noteq> status_objeto_invalido"
  "status_falha \<noteq> status_erro_critico" "status_objeto_invalido \<noteq> status_erro_critico"
  "status_sucesso \<noteq> orange_status" "status_falha \<noteq> orange_status"
  "status_objeto_invalido \<noteq> orange_status" "status_erro_critico \<noteq> orange_status"
  by (simp_all add: status_sucesso_def status_falha_def status_objeto_invalido_def
      status_erro_critico_def orange_status_def str_def)

lemma settle_fields:
  "r_status (createProperty_settle req outcome now) =
     (case outcome of Resolved \<Rightarrow> status_sucesso | Rejected e \<Rightarrow> status_falha)"
  "r_errorMessage (createProperty_settle req outcome now) =
     (case outcome of Resolved \<Rightarrow> [] | Rejected e \<Rightarrow> error_text e)"
  "r_objectType (createProperty_settle req outcome now) = req_objectType req"
  "r_name (createProperty_settle req outcome now) = p_name (req_data req)"
  "r_label (createProperty_settle req outcome now) = p_label (req_data req)"
  "r_timestamp (createProperty_settle req outcome now) = toLocaleString now"
  by (simp_all add: createProperty_settle_def)

lemma add_options_fields:
  "p_type (add_options r p) = p_type p"
  "p_fieldType (add_options r p) = p_fieldType p"
  "p_numberDisplayHint (add_options r p) = p_numberDisplayHint p"
  "p_name (add_options r p) = p_name p"
  "p_label (add_options r p) = p_label p"
  unfolding add_options_def by (simp_all split: option.splits)


lemma build_numberDisplayHint:
  "p_numberDisplayHint (build_propriedade r) =
     (if map_option trim (row_type r) = Some (str ''number'')
         \<and> map_option trim (row_fieldType r) = Some (str ''number'')
      then Some (str ''number'') else None)"
proof -
  let ?p = "add_options r (base_propriedade r)"
  have t: "p_type ?p = map_option trim (row_type r)"
    and f: "p_fieldType ?p = map_option trim (row_fieldType r)"
    and h: "p_numberDisplayHint ?p = None"
    by (simp_all only: add_options_fields) (simp_all add: base_propriedade_def)
  show ?thesis
    unfolding build_propriedade_def add_numberDisplayHint_def
    by (simp add: t f h)
qed

lemma objectType_of_Some:
  "row_objectType r = Some x \<Longrightarrow> objectType_of r = Some (toLowerCase (trim x))"
  by (simp add: objectType_of_def)

lemma BASE_URLS_supported:
  "BASE_URLS (str ''contact'') =
     String (str ''https://api.hubapi.com/properties/v1/contacts/properties'')"
  "BASE_URLS (str ''deal'') =
     String (str ''https://api.hubspot.com/properties/v1/deals/properties'')"
  "BASE_URLS (str ''ticket'') =
     String (str ''https://api.hubspot.com/crm/v3/properties/tickets'')"
  by (simp_all add: BASE_URLS_def BASE_URLS_own_def)

lemma BASE_URLS_inherited:
  "BASE_URLS (str ''constructor'') = Inherited (str ''constructor'')"
  "BASE_URLS (str ''__proto__'') = Inherited (str ''__proto__'')"
  by (simp_all add: BASE_URLS_def BASE_URLS_own_def Object_prototype_names_def)


lemma on_data_accepted:
  assumes "objectType_of r = Some k" and "k \<noteq> []" and "truthy (BASE_URLS k)"
  shows "on_data r now = Submitted (createProperty_request k (build_propriedade r))"
  using assms by (simp add: on_data_def row_ignored_def)

lemma on_data_ignored:
  assumes "row_ignored r"
  shows "on_data r now = Pushed (ignored_result r now)"
  using assms by (simp add: on_data_def)

lemma on_data_Submitted:
  assumes "on_data r now = Submitted req"
  shows "\<not> row_ignored r
    \<and> (\<exists>k. objectType_of r = Some k \<and> req = createProperty_request k (build_propriedade r))"
  using assms unfolding on_data_def by (auto split: if_splits option.splits)

lemma on_data_contact_row:
  "on_data contact_row now =
     Submitted (createProperty_request (str ''contact'') (build_propriedade contact_row))"
proof -
  have "objectType_of contact_row = Some (str ''contact'')"
    by (simp add: objectType_of_def contact_row_def string_ops)
  then show ?thesis
    by (rule on_data_accepted) (simp_all add: BASE_URLS_supported truthy_def)
qed

section \<open>The submitter pushes one record\<close>

text \<open>
  Claim C1, as the code has it. When a request in flight settles, the rest of
  \<open>createProperty\<close> runs to its end without an exception: the step exists, the process
  does not crash, exactly one record is appended to \<open>creationResults\<close> and the request
  leaves the requests in flight. The record has the success status when the request was
  resolved. When it was rejected, the record has the failure status, and its error
  message is the serialized response body when the body is truthy (not \<open>null\<close>,
  \<open>false\<close>, \<open>0\<close> or the empty string), and the message of the error when there is no
  body or the body is falsy.
\<close>

theorem createProperty_pushes_one_record:
  assumes "\<not> crashed s" and "i < length (in_flight s)"
  shows "step s (Settled i outcome now) = Some (handle_settled s i outcome now)
    \<and> \<not> crashed (handle_settled s i outcome now)
    \<and> creationResults (handle_settled s i outcome now) =
        creationResults s @ [createProperty_settle (in_flight s ! i) outcome now]
    \<and> Suc (length (in_flight (handle_settled s i outcome now))) = length (in_flight s)
    \<and> (outcome = Resolved \<longrightarrow>
          r_status (createProperty_settle (in_flight s ! i) outcome now) = status_sucesso)
    \<and> (\<forall>e. outcome = Rejected e \<longrightarrow>
          r_status (createProperty_settle (in_flight s ! i) outcome now) = status_falha
          \<and> r_errorMessage (createProperty_settle (in_flight s ! i) outcome now) =
              (case response_data e of
                 None \<Rightarrow> message e
               | Some d \<Rightarrow> (if json_truthy d then JSON_stringify d else message e)))"
  using assms by (simp add: handle_settled_def settle_fields error_text_def)

theorem createProperty_pushes_one_record_witness:
  "step (handle_data initial_state contact_row clock0) (Settled 0 (Rejected conflict_error) clock0)
     = Some (handle_settled (handle_data initial_state contact_row clock0) 0
               (Rejected conflict_error) clock0)
   \<and> creationResults (handle_settled (handle_data initial_state contact_row clock0) 0
        (Rejected conflict_error) clock0) =
       [createProperty_settle
          (createProperty_request (str ''contact'') (build_propriedade contact_row))
          (Rejected conflict_error) clock0]
   \<and> r_status (createProperty_settle
          (createProperty_request (str ''contact'') (build_propriedade contact_row))
          (Rejected conflict_error) clock0) = status_falha
   \<and> r_errorMessage (createProperty_settle
          (createProperty_request (str ''contact'') (build_propriedade contact_row))
          (Rejected conflict_error) clock0) =
       JSON_stringify (JObj [(str ''status'', JStr (str ''error'')), (str ''code'', JNum 409)])"
proof -
  let ?s = "handle_data initial_state contact_row clock0"
  have fl: "in_flight ?s =
      [createProperty_request (str ''contact'') (build_propriedade contact_row)]"
    and cr: "\<not> crashed ?s" and res: "creationResults ?s = []"
    by (simp_all add: handle_data_def on_data_contact_row initial_state_def)
  have i: "0 < length (in_flight ?s)"
    by (simp add: fl)
  show ?thesis
    using createProperty_pushes_one_record [OF cr i, of "Rejected conflict_error" clock0]
    by (simp add: fl res conflict_error_def)
qed

text \<open>
  Claim C1 as the specification states it fails on a response body that is present and
  falsy: for a rejected request whose response body is the number \<open>0\<close>, the error
  message of the record is the message of the error, not the serialized body.
\<close>

theorem falsy_body_uses_message:
  "response_data zero_body_error = Some (JNum 0)
   \<and> r_errorMessage (createProperty_settle
          (createProperty_request (str ''contact'') (build_propriedade contact_row))
          (Rejected zero_body_error) clock0) = str ''Request failed with status code 500''
   \<and> r_errorMessage (createProperty_settle
          (createProperty_request (str ''contact'') (build_propriedade contact_row))
          (Rejected zero_body_error) clock0) \<noteq> JSON_stringify (JNum 0)"
  by (simp add: settle_fields error_text_def zero_body_error_def JSON_stringify_def
      show_int_def str_def)

section \<open>The report over no results\<close>

text \<open>
  Claim C7. The report over the empty list of results is a document: after the title
  and the line of the date it holds the placeholder message and no block of a result.
  A run over an input without rows, where the parser emits nothing but its end, writes
  this one report.
\<close>

theorem empty_report_has_placeholder:
  "calls (generatePdfReport [] now) =
     [Doc_fontSize 18, Doc_text report_title Align_center, Doc_moveDown None,
      Doc_fontSize 10,
      Doc_text (str ''Data da Execu'' @ [0xE7, 0xE3] @ str ''o: '' @ toLocaleString now)
        No_options,
      Doc_moveDown None, Doc_fontSize 12, Doc_text placeholder Align_center, Doc_end]
   \<and> run initial_state [End now] =
       Some (initial_state\<lparr>parser := Ended, reports := [generatePdfReport [] now]\<rparr>)"
  by (simp add: generatePdfReport_def initial_state_def handle_end_def)

section \<open>The display hint of number properties\<close>

text \<open>
  Claim C8. The property definition that the row handler submits has the display hint
  \<open>number\<close> when the trimmed type of the row and its trimmed field type are both
  \<open>number\<close>, and has no display hint in every other case.
\<close>

theorem number_rows_get_display_hint:
  assumes "on_data r now = Submitted req"
  shows "p_numberDisplayHint (req_data req) =
     (if map_option trim (row_type r) = Some (str ''number'')
         \<and> map_option trim (row_fieldType r) = Some (str ''number'')
      then Some (str ''number'') else None)"
proof -
  obtain k where "req = createProperty_request k (build_propriedade r)"
    using on_data_Submitted [OF assms] by blast
  then have "req_data req = build_propriedade r"
    by (simp add: createProperty_request_def)
  then show ?thesis
    by (simp only: build_numberDisplayHint)
qed

theorem number_rows_get_display_hint_witness:
  "on_data ticket_number_row clock0 =
     Submitted (createProperty_request (str ''ticket'') (build_propriedade ticket_number_row))
   \<and> p_numberDisplayHint
       (req_data (createProperty_request (str ''ticket'') (build_propriedade ticket_number_row)))
     = Some (str ''number'')
   \<and> on_data contact_row clock0 =
     Submitted (createProperty_request (str ''contact'') (build_propriedade contact_row))
   \<and> p_numberDisplayHint
       (req_data (createProperty_request (str ''contact'') (build_propriedade contact_row)))
     = None"
proof -
  have "objectType_of ticket_number_row = Some (str ''ticket'')"
    by (simp add: objectType_of_def ticket_number_row_def string_ops)
  then have t: "on_data ticket_number_row clock0 =
      Submitted (createProperty_request (str ''ticket'') (build_propriedade ticket_number_row))"
    by (rule on_data_accepted) (simp_all add: BASE_URLS_supported truthy_def)
  have ty: "map_option trim (row_type ticket_number_row) = Some (str ''number'')"
    and ft: "map_option trim (row_fieldType ticket_number_row) = Some (str ''number'')"
    and cy: "map_option trim (row_type contact_row) \<noteq> Some (str ''number'')"
    by (simp_all add: ticket_number_row_def contact_row_def string_ops)
  show ?thesis
    using number_rows_get_display_hint [OF t] number_rows_get_display_hint [OF on_data_contact_row]
    by (simp only: t on_data_contact_row ty ft cy) simp
qed

section \<open>The option list of enumeration properties\<close>
















lemma on_data_deal_enum_row:
  "on_data deal_enum_row now =
     Submitted (createProperty_request (str ''deal'') (build_propriedade deal_enum_row))"
proof -
  have "objectType_of deal_enum_row = Some (str ''deal'')"
    by (simp add: objectType_of_def deal_enum_row_def string_ops)
  then show ?thesis
    by (rule on_data_accepted) (simp_all add: BASE_URLS_supported truthy_def)
qed






section \<open>Rows whose object kind is not supported\<close>

lemma lower_no_capital: "c \<in> set (toLowerCase x) \<Longrightarrow> \<not> (0x41 \<le> c \<and> c \<le> 0x5A)"
  by (auto simp: toLowerCase_def lower_unit_def)

lemma lowered_prototype_name:
  assumes "toLowerCase x \<in> set Object_prototype_names"
  shows "toLowerCase x = str ''constructor'' \<or> toLowerCase x = str ''__proto__''"
proof -
  have nc: "\<And>c. c \<in> set (toLowerCase x) \<Longrightarrow> \<not> (0x41 \<le> c \<and> c \<le> 0x5A)"
    by (rule lower_no_capital)
  have a: "toLowerCase x \<noteq> str ''__defineGetter__''" using nc[of 71] by (auto simp: str_def)
  have b: "toLowerCase x \<noteq> str ''__defineSetter__''" using nc[of 83] by (auto simp: str_def)
  have c: "toLowerCase x \<noteq> str ''hasOwnProperty''" using nc[of 79] by (auto simp: str_def)
  have d: "toLowerCase x \<noteq> str ''__lookupGetter__''" using nc[of 71] by (auto simp: str_def)
  have e: "toLowerCase x \<noteq> str ''__lookupSetter__''" using nc[of 83] by (auto simp: str_def)
  have f: "toLowerCase x \<noteq> str ''isPrototypeOf''" using nc[of 80] by (auto simp: str_def)
  have g: "toLowerCase x \<noteq> str ''propertyIsEnumerable''" using nc[of 73] by (auto simp: str_def)
  have h: "toLowerCase x \<noteq> str ''toString''" using nc[of 83] by (auto simp: str_def)
  have i: "toLowerCase x \<noteq> str ''valueOf''" using nc[of 79] by (auto simp: str_def)
  have j: "toLowerCase x \<noteq> str ''toLocaleString''" using nc[of 76] by (auto simp: str_def)
  from assms a b c d e f g h i j show ?thesis
    unfolding Object_prototype_names_def by (simp only: set_simps insert_iff empty_iff) blast
qed

lemma truthy_BASE_URLS:
  "truthy (BASE_URLS k) \<longleftrightarrow>
     k \<in> {str ''contact'', str ''deal'', str ''ticket''} \<or> k \<in> set Object_prototype_names"
  by (auto simp: truthy_def BASE_URLS_def BASE_URLS_own_def split: option.splits if_splits)

text \<open>
  Which rows the handler ignores, among the rows whose object kind is written in Basic
  Latin: those without an object kind, and those whose normalized object kind is neither
  one of the three keys of the endpoint table nor \<open>constructor\<close> or \<open>__proto__\<close>, the two
  inherited property names that are their own lower case.
\<close>

lemma row_ignored_iff:
  assumes "case row_objectType r of None \<Rightarrow> True | Some x \<Rightarrow> basic_latin x"
  shows "row_ignored r \<longleftrightarrow>
     (case objectType_of r of
        None \<Rightarrow> True
      | Some k \<Rightarrow> k \<notin> {str ''contact'', str ''deal'', str ''ticket'',
                        str ''constructor'', str ''__proto__''})"
proof (cases "row_objectType r")
  case None
  then show ?thesis by (simp add: row_ignored_def objectType_of_def)
next
  case (Some x)
  let ?k = "toLowerCase (trim x)"
  have k: "objectType_of r = Some ?k"
    using Some by (rule objectType_of_Some)
  have p: "?k \<in> set Object_prototype_names \<longleftrightarrow> ?k = str ''constructor'' \<or> ?k = str ''__proto__''"
    using lowered_prototype_name [of "trim x"]
    by (auto simp: Object_prototype_names_def)
  have "row_ignored r \<longleftrightarrow> ?k = [] \<or> \<not> truthy (BASE_URLS ?k)"
    by (simp add: row_ignored_def k)
  also have "\<dots> \<longleftrightarrow> ?k \<notin> {str ''contact'', str ''deal'', str ''ticket'',
      str ''constructor'', str ''__proto__''}"
    by (auto simp: truthy_BASE_URLS p)
  finally show ?thesis by (simp add: k)
qed

text \<open>
  Claim C2, at a row whose object kind is \<open>constructor\<close>. The kind is not one of the
  three supported kinds, and the handler does not ignore the row: the lookup in the
  endpoint table finds the inherited property, which is truthy. No record is pushed for
  the row; the property definition is built and handed to the submitter with the
  inherited value in the place of the URL, and whatever the HTTP client answers, the
  record of the row has the success or the failure status, never the status of an
  ignored row.
\<close>

theorem inherited_name_is_submitted:
  "\<not> row_ignored constructor_row
   \<and> on_data constructor_row clock0 =
       Submitted \<lparr>req_objectType = str ''constructor'',
                  req_url = Inherited (str ''constructor''),
                  req_data = build_propriedade constructor_row\<rparr>
   \<and> run initial_state [Data constructor_row clock0] =
       Some (initial_state\<lparr>in_flight :=
         [\<lparr>req_objectType = str ''constructor'', req_url = Inherited (str ''constructor''),
           req_data = build_propriedade constructor_row\<rparr>]\<rparr>)
   \<and> (\<forall>outcome later.
         r_status (createProperty_settle
           \<lparr>req_objectType = str ''constructor'', req_url = Inherited (str ''constructor''),
            req_data = build_propriedade constructor_row\<rparr> outcome later)
         \<noteq> status_objeto_invalido)"
proof -
  have k: "objectType_of constructor_row = Some (str ''constructor'')"
    by (simp add: objectType_of_def constructor_row_def contact_row_def string_ops)
  have t: "truthy (BASE_URLS (str ''constructor''))"
    by (simp add: BASE_URLS_inherited truthy_def)
  have ni: "\<not> row_ignored constructor_row"
    by (simp add: row_ignored_def k t)
  have od: "on_data constructor_row clock0 =
       Submitted \<lparr>req_objectType = str ''constructor'',
                  req_url = Inherited (str ''constructor''),
                  req_data = build_propriedade constructor_row\<rparr>"
    using on_data_accepted [OF k _ t, of clock0]
    by (simp add: createProperty_request_def BASE_URLS_inherited)
  have rn: "run initial_state [Data constructor_row clock0] =
       Some (initial_state\<lparr>in_flight :=
         [\<lparr>req_objectType = str ''constructor'', req_url = Inherited (str ''constructor''),
           req_data = build_propriedade constructor_row\<rparr>]\<rparr>)"
    by (simp add: handle_data_def od) (simp add: initial_state_def)
  have st: "r_status (createProperty_settle req outcome later) \<noteq> status_objeto_invalido"
    for req outcome later
    using statuses_distinct by (cases outcome) (simp_all add: settle_fields)
  from ni od rn st show ?thesis by blast
qed

section \<open>The object kind is normalized\<close>






section \<open>The length of the accumulator\<close>

lemma on_data_not_ignored:
  assumes "\<not> row_ignored r"
  shows "\<exists>req. on_data r now = Submitted req"
  using assms by (auto simp: on_data_def row_ignored_def split: option.splits)

lemma handle_data_ignored:
  assumes "row_ignored r"
  shows "handle_data s r now = s\<lparr>creationResults := creationResults s @ [ignored_result r now]\<rparr>"
  using assms by (simp add: handle_data_def on_data_ignored)

lemma handle_data_submitted:
  assumes "\<not> row_ignored r"
  shows "\<exists>req. on_data r now = Submitted req
    \<and> handle_data s r now = s\<lparr>in_flight := in_flight s @ [req]\<rparr>"
  using on_data_not_ignored [OF assms, of now] by (auto simp: handle_data_def)

lemma step_results:
  assumes "step s e = Some s'"
  shows "length (creationResults s') =
     length (creationResults s) + (if is_processed e then 1 else 0)
       + (if is_critical e then 1 else 0)"
proof (cases e)
  case (Data r now)
  with assms have s': "s' = handle_data s r now"
    by (simp split: if_splits)
  show ?thesis
  proof (cases "row_ignored r")
    case True
    then show ?thesis by (simp add: Data s' handle_data_ignored)
  next
    case False
    then show ?thesis
      using handle_data_submitted [OF False, of now s] by (auto simp: Data s')
  qed
next
  case (Settled i outcome now)
  with assms show ?thesis by (auto simp: handle_settled_def split: if_splits)
next
  case (End now)
  with assms show ?thesis by (auto simp: handle_end_def split: if_splits)
next
  case (Parser_error msg now)
  with assms show ?thesis by (auto simp: handle_error_def Let_def split: if_splits)
next
  case (File_error msg)
  with assms show ?thesis by (auto split: if_splits)
qed

lemma step_in_flight:
  assumes "step s e = Some s'"
  shows "length (in_flight s') + (if is_processed e then 1 else 0) =
     length (in_flight s) + (if is_received e then 1 else 0)"
proof (cases e)
  case (Data r now)
  with assms have s': "s' = handle_data s r now"
    by (simp split: if_splits)
  show ?thesis
  proof (cases "row_ignored r")
    case True
    then show ?thesis by (simp add: Data s' handle_data_ignored)
  next
    case False
    then show ?thesis
      using handle_data_submitted [OF False, of now s] by (auto simp: Data s')
  qed
next
  case (Settled i outcome now)
  with assms show ?thesis by (auto simp: handle_settled_def split: if_splits)
next
  case (End now)
  with assms show ?thesis by (auto simp: handle_end_def split: if_splits)
next
  case (Parser_error msg now)
  with assms show ?thesis by (auto simp: handle_error_def Let_def split: if_splits)
next
  case (File_error msg)
  with assms show ?thesis by (auto split: if_splits)
qed

lemma step_parser:
  assumes "step s e = Some s'"
  shows "(is_critical e \<longrightarrow> parser s = Flowing \<and> parser s' \<noteq> Flowing)
    \<and> (parser s \<noteq> Flowing \<longrightarrow> parser s' \<noteq> Flowing)"
proof (cases e)
  case (Data r now)
  with assms show ?thesis
    by (auto simp: handle_data_def split: if_splits handled.splits)
next
  case (Settled i outcome now)
  with assms show ?thesis by (auto simp: handle_settled_def split: if_splits)
next
  case (End now)
  with assms show ?thesis by (auto simp: handle_end_def split: if_splits)
next
  case (Parser_error msg now)
  with assms show ?thesis by (auto simp: handle_error_def Let_def split: if_splits)
next
  case (File_error msg)
  with assms show ?thesis by (auto split: if_splits)
qed

lemma run_counts:
  assumes "run s es = Some s'"
  shows "length (creationResults s') =
       length (creationResults s) + rows_processed es + critical_entries es
     \<and> length (in_flight s') + rows_processed es = length (in_flight s) + rows_received es"
  using assms
proof (induction es arbitrary: s)
  case Nil
  then show ?case
    by (simp add: rows_processed_def critical_entries_def rows_received_def)
next
  case (Cons e es)
  then obtain t where st: "step s e = Some t" and rn: "run t es = Some s'"
    by (auto split: option.splits)
  from Cons.IH [OF rn] step_results [OF st] step_in_flight [OF st] show ?case
    by (auto simp: rows_processed_def critical_entries_def rows_received_def split: if_splits)
qed

lemma run_critical:
  assumes "run s es = Some s'"
  shows "critical_entries es \<le> (if parser s = Flowing then 1 else 0)"
  using assms
proof (induction es arbitrary: s)
  case Nil
  then show ?case by (simp add: critical_entries_def)
next
  case (Cons e es)
  then obtain t where st: "step s e = Some t" and rn: "run t es = Some s'"
    by (auto split: option.splits)
  from Cons.IH [OF rn] step_parser [OF st] show ?case
    by (auto simp: critical_entries_def split: if_splits)
qed

text \<open>
  Claim C5. At every point of every run, the accumulator \<open>creationResults\<close> has one
  record for each row processed so far, ignored or submitted, and one for the error of
  the parser if it has happened, which it does at most once. A row is processed when its
  handling has reached its end; the rows received and not yet processed are those whose
  request is in flight.
\<close>

theorem accumulator_length:
  assumes "run initial_state es = Some s"
  shows "length (creationResults s) = rows_processed es + critical_entries es
    \<and> critical_entries es \<le> 1
    \<and> rows_received es = rows_processed es + length (in_flight s)"
  using run_counts [OF assms] run_critical [OF assms]
  by (simp add: initial_state_def)

section \<open>Runs on the example rows\<close>

lemma row_ignored_company_row: "row_ignored company_row"
proof -
  have "objectType_of company_row = Some (str ''company'')"
    by (simp add: objectType_of_def company_row_def contact_row_def string_ops)
  moreover have "case row_objectType company_row of None \<Rightarrow> True | Some x \<Rightarrow> basic_latin x"
    by (simp add: company_row_def contact_row_def basic_latin_def str_def)
  ultimately show ?thesis
    by (simp add: row_ignored_iff)
qed

lemma not_ignored_contact_row: "\<not> row_ignored contact_row"
  using on_data_Submitted [OF on_data_contact_row] by blast

lemma initial_fields:
  "creationResults initial_state = []" "in_flight initial_state = []"
  "parser initial_state = Flowing" "reports initial_state = []" "\<not> crashed initial_state"
  by (simp_all add: initial_state_def)

lemma handle_data_contact_row:
  "handle_data s contact_row now =
     s\<lparr>in_flight := in_flight s
        @ [createProperty_request (str ''contact'') (build_propriedade contact_row)]\<rparr>"
  by (simp add: handle_data_def on_data_contact_row)

lemma handle_data_deal_enum_row:
  "handle_data s deal_enum_row now =
     s\<lparr>in_flight := in_flight s
        @ [createProperty_request (str ''deal'') (build_propriedade deal_enum_row)]\<rparr>"
  by (simp add: handle_data_def on_data_deal_enum_row)

lemma handle_data_company_row:
  "handle_data s company_row now =
     s\<lparr>creationResults := creationResults s @ [ignored_result company_row now]\<rparr>"
  by (rule handle_data_ignored) (rule row_ignored_company_row)

lemmas handle_rows = handle_data_contact_row handle_data_deal_enum_row handle_data_company_row

theorem accumulator_length_witness:
  "run initial_state
     [Data contact_row clock0, Data company_row clock0, Parser_error (str ''Invalid row'') clock0]
   = Some (handle_error (handle_data (handle_data initial_state contact_row clock0)
             company_row clock0) (str ''Invalid row'') clock0)
   \<and> length (creationResults (handle_error (handle_data (handle_data initial_state
         contact_row clock0) company_row clock0) (str ''Invalid row'') clock0)) = 2
   \<and> rows_processed
        [Data contact_row clock0, Data company_row clock0, Parser_error (str ''Invalid row'') clock0]
       = 1
   \<and> critical_entries
        [Data contact_row clock0, Data company_row clock0, Parser_error (str ''Invalid row'') clock0]
       = 1"
proof -
  let ?es = "[Data contact_row clock0, Data company_row clock0,
              Parser_error (str ''Invalid row'') clock0]"
  let ?s = "handle_error (handle_data (handle_data initial_state contact_row clock0)
             company_row clock0) (str ''Invalid row'') clock0"
  have rn: "run initial_state ?es = Some ?s"
    by (simp add: handle_rows initial_fields)
  have rp: "rows_processed ?es = 1" and ce: "critical_entries ?es = 1"
    by (simp_all add: rows_processed_def critical_entries_def row_ignored_company_row
        not_ignored_contact_row)
  show ?thesis
    using accumulator_length [OF rn] by (simp only: rn rp ce) simp
qed

section \<open>The report and the requests in flight\<close>

text \<open>
  Claim C6, on a file of three rows: a contact property, a row of the unsupported kind
  \<open>company\<close> and an enumeration property of a deal. The parser emits the three rows and
  its end before the two requests settle, which is the order of a file that is read
  faster than the platform answers. The accumulator gets its three records, but the one
  report is written at the end of the parser and lists the ignored row only.
\<close>

theorem report_misses_requests_in_flight:
  "run initial_state
     [Data contact_row clock0, Data company_row clock0, Data deal_enum_row clock0, End clock0,
      Settled 0 Resolved clock0, Settled 0 Resolved clock0]
   = Some \<lparr>creationResults =
             [ignored_result company_row clock0,
              createProperty_settle
                (createProperty_request (str ''contact'') (build_propriedade contact_row))
                Resolved clock0,
              createProperty_settle
                (createProperty_request (str ''deal'') (build_propriedade deal_enum_row))
                Resolved clock0],
           in_flight = [], parser = Ended,
           reports = [generatePdfReport [ignored_result company_row clock0] clock0],
           crashed = False\<rparr>"
  by (simp add: handle_rows initial_fields handle_end_def handle_settled_def)

text \<open>
  When both requests settle before the parser ends, the report lists the three records.
\<close>

lemma report_after_all_settled:
  "run initial_state
     [Data contact_row clock0, Data company_row clock0, Data deal_enum_row clock0,
      Settled 0 Resolved clock0, Settled 0 Resolved clock0, End clock0]
   = Some \<lparr>creationResults =
             [ignored_result company_row clock0,
              createProperty_settle
                (createProperty_request (str ''contact'') (build_propriedade contact_row))
                Resolved clock0,
              createProperty_settle
                (createProperty_request (str ''deal'') (build_propriedade deal_enum_row))
                Resolved clock0],
           in_flight = [], parser = Ended,
           reports = [generatePdfReport
             [ignored_result company_row clock0,
              createProperty_settle
                (createProperty_request (str ''contact'') (build_propriedade contact_row))
                Resolved clock0,
              createProperty_settle
                (createProperty_request (str ''deal'') (build_propriedade deal_enum_row))
                Resolved clock0] clock0],
           crashed = False\<rparr>"
  by (simp add: handle_rows initial_fields handle_end_def handle_settled_def)

section \<open>A failure of the file stream\<close>

text \<open>
  Claim C4, at a file that cannot be opened. The file stream emits the error; the
  listener of the script is on the parser, so the error has no listener and ends the
  process: no record is appended, no report is written, and no handler runs afterwards.
\<close>

theorem file_error_is_unhandled:
  "run initial_state [File_error enoent] = Some (initial_state\<lparr>crashed := True\<rparr>)
   \<and> creationResults (initial_state\<lparr>crashed := True\<rparr>) = []
   \<and> reports (initial_state\<lparr>crashed := True\<rparr>) = []
   \<and> (\<forall>e. step (initial_state\<lparr>crashed := True\<rparr>) e = None)"
proof -
  have "step (initial_state\<lparr>crashed := True\<rparr>) e = None" for e
    by (cases e) simp_all
  then show ?thesis
    by (simp add: initial_fields)
qed

section \<open>The colour of the status\<close>

lemma known_status_color:
  assumes "known_status r"
  shows "statusColor r = (if r_status r = status_sucesso then str ''green'' else str ''red'')"
  using assms statuses_distinct
  by (auto simp: known_status_def statusColor_def)

lemma statusColor_green_iff: "statusColor r = str ''green'' \<longleftrightarrow> r_status r = status_sucesso"
  by (simp add: statusColor_def)

lemma known_status_not_orange:
  assumes "known_status r"
  shows "Doc_fillColor (str ''orange'') \<notin> set (render_result r)"
  by (simp add: render_result_def known_status_color [OF assms])

lemma report_not_orange:
  assumes "\<forall>r \<in> set rs. known_status r"
  shows "Doc_fillColor (str ''orange'') \<notin> set (calls (generatePdfReport rs now))"
  using assms known_status_not_orange by (auto simp: generatePdfReport_def)

lemma known_status_settle: "known_status (createProperty_settle req outcome now)"
  by (cases outcome) (simp_all add: known_status_def settle_fields)

lemma known_status_ignored: "known_status (ignored_result r now)"
  by (simp add: known_status_def ignored_result_def)

lemma known_status_critical: "known_status (critical_result msg now)"
  by (simp add: known_status_def critical_result_def)

lemma step_colors_ok:
  assumes "step s e = Some s'" and "colors_ok s"
  shows "colors_ok s'"
proof (cases e)
  case (Data r now)
  with assms(1) have s': "s' = handle_data s r now"
    by (simp split: if_splits)
  show ?thesis
  proof (cases "row_ignored r")
    case True
    with assms(2) show ?thesis
      by (simp add: s' handle_data_ignored colors_ok_def known_status_ignored)
  next
    case False
    with assms(2) show ?thesis
      using handle_data_submitted [OF False, of now s] by (auto simp: s' colors_ok_def)
  qed
next
  case (Settled i outcome now)
  with assms show ?thesis
    by (auto simp: handle_settled_def colors_ok_def known_status_settle split: if_splits)
next
  case (End now)
  with assms have s': "s' = handle_end s now"
    by (simp split: if_splits)
  from assms(2) show ?thesis
    by (auto simp: s' handle_end_def colors_ok_def report_not_orange)
next
  case (Parser_error msg now)
  with assms have s': "s' = handle_error s msg now"
    by (simp split: if_splits)
  have k: "\<forall>r \<in> set (creationResults s @ [critical_result msg now]). known_status r"
    using assms(2) by (auto simp: colors_ok_def known_status_critical)
  from assms(2) k report_not_orange [OF k, of now] show ?thesis
    by (auto simp: s' handle_error_def Let_def colors_ok_def)
next
  case (File_error msg)
  with assms show ?thesis by (auto simp: colors_ok_def split: if_splits)
qed

lemma run_colors_ok:
  assumes "run s es = Some s'" and "colors_ok s"
  shows "colors_ok s'"
  using assms
proof (induction es arbitrary: s)
  case Nil
  then show ?case by simp
next
  case (Cons e es)
  then obtain t where st: "step s e = Some t" and rn: "run t es = Some s'"
    by (auto split: option.splits)
  from Cons.IH [OF rn step_colors_ok [OF st Cons.prems(2)]] show ?case .
qed

text \<open>
  What a report writes: the status of each result it is given, in the colour of
  \<open>statusColor\<close>. A report is written once, when the parser ends or fails, over the
  accumulator of that moment; the accumulator only grows afterwards.
\<close>

lemma status_lines_render:
  "status_lines c (render_result r @ rest) =
     (statusColor r, r_status r) # status_lines (str ''black'') rest"
  by (simp add: render_result_def)

lemma status_lines_results:
  "status_lines c (concat (map render_result rs) @ [Doc_end]) =
     map (\<lambda>r. (statusColor r, r_status r)) rs"
proof (induction rs arbitrary: c)
  case Nil
  show ?case by simp
next
  case (Cons r rs)
  have "status_lines c (concat (map render_result (r # rs)) @ [Doc_end]) =
      status_lines c (render_result r @ (concat (map render_result rs) @ [Doc_end]))"
    by simp
  also have "\<dots> = (statusColor r, r_status r)
      # status_lines (str ''black'') (concat (map render_result rs) @ [Doc_end])"
    by (rule status_lines_render)
  finally show ?case
    by (simp add: Cons.IH)
qed

lemma status_lines_report:
  "status_lines (str ''black'') (calls (generatePdfReport rs now)) =
     map (\<lambda>r. (statusColor r, r_status r)) rs"
proof (cases "rs = []")
  case True
  then show ?thesis by (simp add: generatePdfReport_def)
next
  case False
  then show ?thesis
    by (simp add: generatePdfReport_def status_lines_results)
qed

lemma step_appends:
  assumes "step s e = Some s'"
  shows "\<exists>xs. creationResults s' = creationResults s @ xs"
proof (cases e)
  case (Data r now)
  with assms show ?thesis
    by (auto simp: handle_data_def split: if_splits handled.splits)
next
  case (Settled i outcome now)
  with assms show ?thesis by (auto simp: handle_settled_def split: if_splits)
next
  case (End now)
  with assms show ?thesis by (auto simp: handle_end_def split: if_splits)
next
  case (Parser_error msg now)
  with assms show ?thesis by (auto simp: handle_error_def Let_def split: if_splits)
next
  case (File_error msg)
  with assms show ?thesis by (auto split: if_splits)
qed

lemma step_reports_fixed:
  assumes "step s e = Some s'" and "parser s \<noteq> Flowing"
  shows "reports s' = reports s \<and> parser s' \<noteq> Flowing"
proof (cases e)
  case (Settled i outcome now)
  with assms show ?thesis by (auto simp: handle_settled_def split: if_splits)
qed (use assms in \<open>auto split: if_splits\<close>)

lemma run_after_end:
  assumes "run s es = Some s'" and "parser s \<noteq> Flowing"
  shows "reports s' = reports s \<and> (\<exists>xs. creationResults s' = creationResults s @ xs)"
  using assms
proof (induction es arbitrary: s)
  case Nil
  then show ?case by simp
next
  case (Cons e es)
  then obtain t where st: "step s e = Some t" and rn: "run t es = Some s'"
    by (auto split: option.splits)
  from step_reports_fixed [OF st Cons.prems(2)] have r: "reports t = reports s"
    and p: "parser t \<noteq> Flowing" by simp_all
  from step_appends [OF st] obtain xs where xs: "creationResults t = creationResults s @ xs"
    by blast
  from Cons.IH [OF rn p] obtain ys where "reports s' = reports t"
    and "creationResults s' = creationResults t @ ys" by blast
  with r xs show ?case by simp
qed

lemma run_reports:
  assumes "run s es = Some s'" and "parser s = Flowing" and "reports s = []"
  shows "\<forall>rep \<in> set (reports s'). \<exists>now. rep =
     generatePdfReport
       (take (length (creationResults s) + results_at_report es) (creationResults s')) now"
  using assms
proof (induction es arbitrary: s)
  case Nil
  then show ?case by simp
next
  case (Cons e es)
  then obtain t where st: "step s e = Some t" and rn: "run t es = Some s'"
    by (auto split: option.splits)
  show ?case
  proof (cases e)
    case (Data r now)
    with st have t: "t = handle_data s r now"
      by (simp split: if_splits)
    have pt: "parser t = Flowing" and rt: "reports t = []"
      using Cons.prems(2,3) by (simp_all add: t handle_data_def split: handled.splits)
    have lt: "length (creationResults t) =
        length (creationResults s) + (if row_ignored r then 1 else 0)"
      using step_results [OF st] by (simp add: Data)
    from Cons.IH [OF rn pt rt] show ?thesis
      by (simp add: lt Data add.assoc)
  next
    case (Settled i outcome now)
    with st have t: "t = handle_settled s i outcome now"
      by (simp split: if_splits)
    have pt: "parser t = Flowing" and rt: "reports t = []"
      using Cons.prems(2,3) by (simp_all add: t handle_settled_def)
    have lt: "length (creationResults t) = length (creationResults s) + 1"
      by (simp add: t handle_settled_def)
    from Cons.IH [OF rn pt rt] show ?thesis
      by (simp add: lt Settled)
  next
    case (End now)
    with st have t: "t = handle_end s now"
      by (simp split: if_splits)
    have pt: "parser t \<noteq> Flowing"
      and rt: "reports t = [generatePdfReport (creationResults s) now]"
      and ct: "creationResults t = creationResults s"
      using Cons.prems(3) by (simp_all add: t handle_end_def)
    from run_after_end [OF rn pt] obtain xs where "reports s' = reports t"
      and "creationResults s' = creationResults t @ xs" by blast
    then show ?thesis
      by (auto simp: rt ct End)
  next
    case (Parser_error msg now)
    with st have t: "t = handle_error s msg now"
      by (simp split: if_splits)
    have pt: "parser t \<noteq> Flowing"
      and rt: "reports t = [generatePdfReport (creationResults t) now]"
      and ct: "creationResults t = creationResults s @ [critical_result msg now]"
      using Cons.prems(3) by (simp_all add: t handle_error_def Let_def)
    from run_after_end [OF rn pt] obtain xs where "reports s' = reports t"
      and "creationResults s' = creationResults t @ xs" by blast
    then show ?thesis
      using rt by (auto simp: ct Parser_error)
  next
    case (File_error msg)
    with st have t: "t = s\<lparr>crashed := True\<rparr>"
      by (simp split: if_splits)
    have pt: "parser t = Flowing" and rt: "reports t = []"
      and lt: "creationResults t = creationResults s"
      using Cons.prems(2,3) by (simp_all add: t)
    from Cons.IH [OF rn pt rt] show ?thesis
      by (simp add: lt File_error)
  qed
qed

text \<open>
  Claim C9. In every run, each record of the accumulator is coloured green when its
  status is the success status and red otherwise, green only for the success status.
  Every report of the run is written over the records that the accumulator holds when
  the parser ends or fails, and it writes the status of each of them, in their order, in
  that colour: green for the success status, red for every other one. No report sets
  the orange colour, because the status that the row handler writes for an ignored row
  is not the status that the report compares with for orange; an ignored row is coloured
  red.
\<close>

theorem status_colors:
  assumes "run initial_state es = Some s"
  shows "(\<forall>r \<in> set (creationResults s).
            statusColor r = (if r_status r = status_sucesso then str ''green'' else str ''red'')
            \<and> (statusColor r = str ''green'' \<longleftrightarrow> r_status r = status_sucesso))
    \<and> (\<forall>rep \<in> set (reports s).
          status_lines (str ''black'') (calls rep) =
            map (\<lambda>r. (if r_status r = status_sucesso then str ''green'' else str ''red'',
                       r_status r))
              (take (results_at_report es) (creationResults s)))
    \<and> (\<forall>rep \<in> set (reports s). Doc_fillColor (str ''orange'') \<notin> set (calls rep))
    \<and> status_objeto_invalido \<noteq> orange_status
    \<and> (\<forall>r now. statusColor (ignored_result r now) = str ''red'')"
proof -
  have "colors_ok initial_state"
    by (simp add: colors_ok_def initial_state_def)
  with assms have ok: "colors_ok s"
    by (rule run_colors_ok)
  have ig: "statusColor (ignored_result r now) = str ''red''" for r now
    using known_status_color [OF known_status_ignored, of r now] statuses_distinct
    by (simp add: ignored_result_def)
  have lines: "status_lines (str ''black'') (calls rep) =
      map (\<lambda>r. (if r_status r = status_sucesso then str ''green'' else str ''red'', r_status r))
        (take (results_at_report es) (creationResults s))"
    if "rep \<in> set (reports s)" for rep
  proof -
    let ?rs = "take (results_at_report es) (creationResults s)"
    from run_reports [OF assms] that obtain now where "rep = generatePdfReport ?rs now"
      by (auto simp: initial_state_def)
    then have "status_lines (str ''black'') (calls rep) =
        map (\<lambda>r. (statusColor r, r_status r)) ?rs"
      by (simp only: status_lines_report)
    also have "\<dots> = map (\<lambda>r. (if r_status r = status_sucesso then str ''green''
        else str ''red'', r_status r)) ?rs"
    proof (rule map_cong [OF refl])
      fix r
      assume "r \<in> set ?rs"
      then have "r \<in> set (creationResults s)"
        by (rule in_set_takeD)
      with ok have "known_status r"
        by (simp add: colors_ok_def)
      then show "(statusColor r, r_status r) =
          (if r_status r = status_sucesso then str ''green'' else str ''red'', r_status r)"
        by (simp only: known_status_color)
    qed
    finally show ?thesis .
  qed
  from ok ig statuses_distinct(9) lines show ?thesis
    by (simp add: colors_ok_def known_status_color statusColor_green_iff)
qed

theorem status_colors_witness:
  "run initial_state
     [Data contact_row clock0, Data company_row clock0, Settled 0 Resolved clock0, End clock0] =
     Some (handle_end (handle_settled (handle_data (handle_data initial_state contact_row clock0)
             company_row clock0) 0 Resolved clock0) clock0)
   \<and> reports (handle_end (handle_settled (handle_data (handle_data initial_state contact_row
         clock0) company_row clock0) 0 Resolved clock0) clock0) =
       [generatePdfReport
          [ignored_result company_row clock0,
           createProperty_settle
             (createProperty_request (str ''contact'') (build_propriedade contact_row))
             Resolved clock0] clock0]
   \<and> status_lines (str ''black'')
        (calls (generatePdfReport
          [ignored_result company_row clock0,
           createProperty_settle
             (createProperty_request (str ''contact'') (build_propriedade contact_row))
             Resolved clock0] clock0)) =
       [(str ''red'', status_objeto_invalido), (str ''green'', status_sucesso)]"
proof -
  let ?es = "[Data contact_row clock0, Data company_row clock0, Settled 0 Resolved clock0,
              End clock0]"
  let ?s = "handle_end (handle_settled (handle_data (handle_data initial_state contact_row
         clock0) company_row clock0) 0 Resolved clock0) clock0"
  let ?rs = "[ignored_result company_row clock0,
           createProperty_settle
             (createProperty_request (str ''contact'') (build_propriedade contact_row))
             Resolved clock0]"
  have rn: "run initial_state ?es = Some ?s"
    by (simp add: handle_rows initial_fields handle_settled_def)
  have cr: "creationResults ?s = ?rs"
    and rp: "reports ?s = [generatePdfReport ?rs clock0]"
    by (simp_all add: handle_rows initial_fields handle_end_def handle_settled_def)
  have n: "results_at_report ?es = 2"
    by (simp add: row_ignored_company_row not_ignored_contact_row)
  have st: "r_status (ignored_result company_row clock0) = status_objeto_invalido"
    "r_status (createProperty_settle
             (createProperty_request (str ''contact'') (build_propriedade contact_row))
             Resolved clock0) = status_sucesso"
    by (simp_all add: ignored_result_def settle_fields)
  have d: "status_objeto_invalido \<noteq> status_sucesso"
    using statuses_distinct(2) by simp
  show ?thesis
    using status_colors [OF rn] by (simp only: rn cr rp n) (simp add: st d)
qed

end
